theory Spec2Isabelle
  imports Main "HOL-Library.Sublist"
begin

section \<open>The route handlers of parser-service/routes.js\<close>

text \<open>
  The file routes.js holds two asynchronous handlers, \<open>applyRecommendations\<close> and
  \<open>ci\<close>. Both are straight-line sequences of awaited calls into the modules
  recommender, terraform, sourcecontrol, github and db, and of calls on the response
  object \<open>res\<close>. The modules are required by routes.js but are not part of it, so they
  enter the model as a record of functions, each returning either the value its
  promise resolves to or the error it rejects with. Every call that a handler issues is
  written to a trace, in the order the handler issues it; the calls on \<open>res\<close> are
  written to the same trace, as the handler makes them (what the web framework does
  with a second response call is not decided in routes.js and is not modelled).
  Console output is left out. The build event that \<open>ci\<close> decodes is any JSON value,
  and the tests and conversions that the handler applies to it follow JavaScript.
\<close>

subsection \<open>Errors and strings\<close>

text \<open>
  A thrown value: an error object of one of three classes, with its message.
  \<open>e.toString()\<close> is the class name, followed by a colon and the message when the
  message is not empty.
\<close>

datatype error = TypeError string | SyntaxError string | Error string

fun toString :: "error \<Rightarrow> string" where
  "toString (TypeError m) = (if m = [] then ''TypeError'' else ''TypeError: '' @ m)"
| "toString (SyntaxError m) = (if m = [] then ''SyntaxError'' else ''SyntaxError: '' @ m)"
| "toString (Error m) = (if m = [] then ''Error'' else ''Error: '' @ m)"

text \<open>
  \<open>String.prototype.toUpperCase\<close> on ASCII text: the letters \<open>a\<close> to \<open>z\<close> go to \<open>A\<close> to
  \<open>Z\<close>, every other ASCII character stays. JavaScript also maps letters outside ASCII
  (the dotless i, for one, goes to \<open>I\<close>); that part of the mapping is not modelled, and
  what is stated below through \<open>toUpperCase\<close> is stated of ASCII text, which
  \<open>ascii_text\<close> recognises.
\<close>

definition ascii_text :: "string \<Rightarrow> bool" where
  "ascii_text s = list_all (\<lambda>c. (of_char c :: nat) < 128) s"

definition toUpperCase_char :: "char \<Rightarrow> char" where
  "toUpperCase_char c =
     (case map_of (zip ''abcdefghijklmnopqrstuvwxyz'' ''ABCDEFGHIJKLMNOPQRSTUVWXYZ'') c of
        Some u \<Rightarrow> u
      | None \<Rightarrow> c)"

definition toUpperCase :: "string \<Rightarrow> string" where
  "toUpperCase s = map toUpperCase_char s"

text \<open>
  A value interpolated into a template literal: \<open>undefined\<close> (here \<open>None\<close>) prints as
  the nine letters of its name.
\<close>

fun template :: "string option \<Rightarrow> string" where
  "template None = ''undefined''"
| "template (Some s) = s"

text \<open>What \<open>sourceControl.commitChanges\<close> resolves to: the fields \<open>commit\<close> and \<open>branch\<close>.\<close>

record commit_result =
  commit :: string
  branch :: string

text \<open>An element of what \<open>recommender.getRecommendations\<close> resolves to.\<close>

record reco =
  name :: string
  etag :: string

text \<open>The object \<open>{id: reco.name, etag: reco.etag}\<close> that \<open>ci\<close> builds from it.\<close>

record recommendation =
  rec_id :: string
  rec_etag :: string

subsection \<open>Decoded JSON values\<close>

text \<open>
  What \<open>JSON.parse\<close> returns. A number is given by the text that JavaScript prints for
  it (\<open>0\<close> and \<open>-0\<close> both print as \<open>0\<close>); an object is given by its own properties,
  with distinct names. A JavaScript value read from such a value is a \<open>json option\<close>,
  where \<open>None\<close> is \<open>undefined\<close>.
\<close>

datatype json =
    JNull
  | JBool bool
  | JNumber string
  | JString string
  | JArray "json list"
  | JObject "(string \<times> json) list"

text \<open>
  The value of \<open>v.k\<close> for one of the four names that routes.js reads (\<open>status\<close>,
  \<open>substitutions\<close>, \<open>COMMIT_SHA\<close>, \<open>REPO_NAME\<close>): an object has it when it has a
  property of that name, and a string, number, boolean or array has no such property.
  Reading a property of \<open>undefined\<close> or of \<open>null\<close> throws.
\<close>

fun property :: "json \<Rightarrow> string \<Rightarrow> json option" where
  "property (JObject kvs) k = map_of kvs k"
| "property v k = None"

definition read_property :: "json option \<Rightarrow> string \<Rightarrow> error + json option" where
  "read_property v k =
     (case v of
        None \<Rightarrow>
          Inl (TypeError (''Cannot read properties of undefined (reading ''
                          @ [CHR 0x27] @ k @ [CHR 0x27] @ '')''))
      | Some JNull \<Rightarrow>
          Inl (TypeError (''Cannot read properties of null (reading ''
                          @ [CHR 0x27] @ k @ [CHR 0x27] @ '')''))
      | Some w \<Rightarrow> Inr (property w k))"

text \<open>
  Conversion to a string, as a template literal and \<open>==\<close> against a string perform it.
  An array is the texts of its elements joined by commas, with nothing for \<open>null\<close>. An
  object is \<open>[object Object]\<close>, unless it has a property named \<open>toString\<close> of its
  own: a value decoded from JSON is not a function, and the conversion throws.
\<close>

fun join_comma :: "string list \<Rightarrow> string" where
  "join_comma [] = []"
| "join_comma [x] = x"
| "join_comma (x # y # ys) = x @ '','' @ join_comma (y # ys)"

fun all_or_first_error :: "(error + 'a) list \<Rightarrow> error + 'a list" where
  "all_or_first_error [] = Inr []"
| "all_or_first_error (Inl e # rs) = Inl e"
| "all_or_first_error (Inr x # rs) =
     (case all_or_first_error rs of Inl e \<Rightarrow> Inl e | Inr xs \<Rightarrow> Inr (x # xs))"

fun js_String :: "json \<Rightarrow> error + string" where
  "js_String JNull = Inr ''null''"
| "js_String (JBool b) = Inr (if b then ''true'' else ''false'')"
| "js_String (JNumber r) = Inr r"
| "js_String (JString s) = Inr s"
| "js_String (JArray xs) =
     (case all_or_first_error (map (\<lambda>x. if x = JNull then Inr [] else js_String x) xs) of
        Inl e \<Rightarrow> Inl e
      | Inr ss \<Rightarrow> Inr (join_comma ss))"
| "js_String (JObject kvs) =
     (if map_of kvs ''toString'' = None then Inr ''[object Object]''
      else Inl (TypeError ''Cannot convert object to primitive value''))"

text \<open>A value interpolated into a template literal.\<close>

fun template_value :: "json option \<Rightarrow> error + string" where
  "template_value None = Inr ''undefined''"
| "template_value (Some v) = js_String v"

text \<open>
  The comparison \<open>x == 'SUCCESS'\<close>. \<open>undefined\<close> and \<open>null\<close> equal no string. A number
  or a boolean is compared as a number with the number that the string denotes, and
  \<open>SUCCESS\<close> denotes none. A string is compared as it is, an array or an object after
  conversion to a string.
\<close>

fun loose_eq_SUCCESS :: "json option \<Rightarrow> error + bool" where
  "loose_eq_SUCCESS None = Inr False"
| "loose_eq_SUCCESS (Some JNull) = Inr False"
| "loose_eq_SUCCESS (Some (JBool b)) = Inr False"
| "loose_eq_SUCCESS (Some (JNumber r)) = Inr False"
| "loose_eq_SUCCESS (Some (JString s)) = Inr (s = ''SUCCESS'')"
| "loose_eq_SUCCESS (Some v) =
     (case js_String v of Inl e \<Rightarrow> Inl e | Inr s \<Rightarrow> Inr (s = ''SUCCESS''))"

text \<open>
  Truthiness: \<open>undefined\<close>, \<open>null\<close>, \<open>false\<close>, zero and the empty string are falsy, every
  other value is truthy.
\<close>

fun truthy :: "json option \<Rightarrow> bool" where
  "truthy None = False"
| "truthy (Some JNull) = False"
| "truthy (Some (JBool b)) = b"
| "truthy (Some (JNumber r)) = (r \<noteq> ''0'')"
| "truthy (Some (JString s)) = (s \<noteq> [])"
| "truthy (Some v) = True"

subsection \<open>Collaborators, calls and traces\<close>

text \<open>
  The imported modules and the ambient values read by the handlers. The type \<open>'r\<close> is
  the type of the recommendation objects that flow through a handler; the handlers only
  pass them on.
\<close>

record 'r collaborators =
  listVMResizeRecommendations :: "string list \<Rightarrow> error + 'r list"
  listIAMRecommendations :: "string list \<Rightarrow> error + 'r list"
  getRecommendations :: "string list \<Rightarrow> error + reco list"
  setRecommendationStatus :: "'r list \<Rightarrow> string \<Rightarrow> error + unit"
  applyVMResizeRecommendations :: "string \<Rightarrow> 'r list \<Rightarrow> error + 'r list"
  applyIAMRecommendations :: "string \<Rightarrow> 'r list \<Rightarrow> error + 'r list"
  cloneRepository :: "string \<Rightarrow> string \<Rightarrow> error + unit"
  commitChanges :: "string \<Rightarrow> string \<Rightarrow> error + commit_result"
  createPullRequest :: "string \<Rightarrow> string \<Rightarrow> string \<Rightarrow> error + unit"
  getParentCommits :: "string \<Rightarrow> json option \<Rightarrow> error + string list"
  createCommit :: "string \<Rightarrow> string \<Rightarrow> 'r list \<Rightarrow> error + unit"
  getCommit :: "json option \<Rightarrow> string \<Rightarrow> error + string list"
  BASE_REPO :: "string option"
  toLocaleString_now :: string
  JSON_parse_base64 :: "string \<Rightarrow> error + json"

text \<open>
  \<open>BASE_REPO\<close> is \<open>process.env.GITHUB_ACCOUNT\<close>, \<open>toLocaleString_now\<close> is
  \<open>(new Date()).toLocaleString()\<close> at the moment the commit message is built, and
  \<open>JSON_parse_base64 data\<close> is \<open>JSON.parse(Buffer.from(data, 'base64').toString())\<close>,
  which throws on text that is not JSON.
\<close>

text \<open>One constructor for each call a handler can issue, with the arguments of the call.\<close>

datatype 'r event =
    ListVMResizeRecommendations "string list"
  | ListIAMRecommendations "string list"
  | GetRecommendations "string list"
  | SetRecommendationStatus "'r list" string
  | ApplyVMResizeRecommendations string "'r list"
  | ApplyIAMRecommendations string "'r list"
  | CloneRepository string string
  | CommitChanges string string
  | CreatePullRequest string string string
  | GetParentCommits string "json option"
  | CreateCommit string string "'r list"
  | GetCommit "json option" string
  | ResStatus nat
  | ResSend string
  | ResSendStatus nat
  | ResEnd "string option"

text \<open>
  A step of a handler: the calls it issued, and the value it produced or the error it
  threw. \<open>bind_step\<close> is sequencing (\<open>await\<close> and \<open>;\<close>): an error skips the rest.
\<close>

type_synonym ('r, 'a) step = "'r event list \<times> (error + 'a)"

definition call :: "'r event \<Rightarrow> error + 'a \<Rightarrow> ('r, 'a) step" where
  "call ev result = ([ev], result)"

definition throw :: "error \<Rightarrow> ('r, 'a) step" where
  "throw e = ([], Inl e)"

text \<open>An evaluation inside the handler, which calls nothing and may throw.\<close>

definition evaluate :: "error + 'a \<Rightarrow> ('r, 'a) step" where
  "evaluate result = ([], result)"

definition bind_step :: "('r, 'a) step \<Rightarrow> ('a \<Rightarrow> ('r, 'b) step) \<Rightarrow> ('r, 'b) step" where
  "bind_step m f =
     (case m of
        (t, Inl e) \<Rightarrow> (t, Inl e)
      | (t, Inr x) \<Rightarrow> (case f x of (t', r) \<Rightarrow> (t @ t', r)))"

text \<open>
  \<open>Promise.all\<close> over an array of promises that were all created already: every call
  has been issued, whatever its outcome. The result is the array of values, or an error
  if some promise rejects (the one of the first rejected promise in array order; which
  rejection arrives first in time is not modelled).
\<close>

fun promise_all :: "('r, 'a) step list \<Rightarrow> ('r, 'a list) step" where
  "promise_all [] = ([], Inr [])"
| "promise_all ((t, r) # ps) =
     (case promise_all ps of
        (ts, rs) \<Rightarrow>
          (t @ ts,
           case r of
             Inl e \<Rightarrow> Inl e
           | Inr x \<Rightarrow> (case rs of Inl e' \<Rightarrow> Inl e' | Inr xs \<Rightarrow> Inr (x # xs))))"

subsection \<open>applyRecommendations\<close>

record apply_request =
  repo :: string
  projects :: "string list"
  rtype :: string

text \<open>
  \<open>repo\<close> and \<open>projects\<close> are \<open>req.body.repo\<close> and \<open>req.body.projects\<close>, \<open>rtype\<close> is the
  route parameter \<open>req.params.type\<close>.
\<close>

text \<open>The functions that the two local variables of the handler can hold.\<close>

datatype list_fn = ListVM | ListIAM
datatype apply_fn = ApplyVM | ApplyIAM

text \<open>
  The \<open>switch\<close> statement. The default branch answers and does not return: it leaves
  both variables \<open>undefined\<close> and control goes on after the switch.
\<close>

definition switch_type :: "string \<Rightarrow> ('r, list_fn option \<times> apply_fn option) step" where
  "switch_type type =
     (if type = ''VM'' then ([], Inr (Some ListVM, Some ApplyVM))
      else if type = ''IAM'' then ([], Inr (Some ListIAM, Some ApplyIAM))
      else bind_step (call (ResStatus 500) (Inr ()))
             (\<lambda>_. bind_step (call (ResSend ''Unknown operation'') (Inr ()))
                (\<lambda>_. ([], Inr (None, None)))))"

text \<open>Calling a variable: \<open>undefined\<close> is not a function.\<close>

fun listRecommendationsFn ::
  "'r collaborators \<Rightarrow> list_fn option \<Rightarrow> string list \<Rightarrow> ('r, 'r list) step" where
  "listRecommendationsFn env None projectIDs =
     throw (TypeError ''listRecommendationsFn is not a function'')"
| "listRecommendationsFn env (Some ListVM) projectIDs =
     call (ListVMResizeRecommendations projectIDs) (listVMResizeRecommendations env projectIDs)"
| "listRecommendationsFn env (Some ListIAM) projectIDs =
     call (ListIAMRecommendations projectIDs) (listIAMRecommendations env projectIDs)"

fun applyRecommendationsFn ::
  "'r collaborators \<Rightarrow> apply_fn option \<Rightarrow> string \<Rightarrow> 'r list \<Rightarrow> ('r, 'r list) step" where
  "applyRecommendationsFn env None repoName recommendations =
     throw (TypeError ''applyRecommendationsFn is not a function'')"
| "applyRecommendationsFn env (Some ApplyVM) repoName recommendations =
     call (ApplyVMResizeRecommendations repoName recommendations)
       (applyVMResizeRecommendations env repoName recommendations)"
| "applyRecommendationsFn env (Some ApplyIAM) repoName recommendations =
     call (ApplyIAMRecommendations repoName recommendations)
       (applyIAMRecommendations env repoName recommendations)"

definition commitMessage :: "'r collaborators \<Rightarrow> string \<Rightarrow> string" where
  "commitMessage env type =
     (if type = ''VM''
      then ''Recommended VM Rightsizing as on '' @ toLocaleString_now env
      else ''Recommended IAM Updates as on '' @ toLocaleString_now env)"

definition remote :: "'r collaborators \<Rightarrow> string \<Rightarrow> string" where
  "remote env repoName = ''git@'' @ template (BASE_REPO env) @ ''/'' @ repoName @ ''.git''"

text \<open>The body of the \<open>try\<close> block, lines 25 to 86.\<close>

definition apply_try :: "'r collaborators \<Rightarrow> apply_request \<Rightarrow> ('r, unit) step" where
  "apply_try env req =
     (let repoName = repo req;
          projectIDs = projects req;
          type = toUpperCase (rtype req)
      in
      bind_step (switch_type type) (\<lambda>(listFn, applyFn).
      bind_step (listRecommendationsFn env listFn projectIDs) (\<lambda>recommendations.
      if recommendations = [] then call (ResEnd (Some ''Nothing to apply'')) (Inr ())
      else
      bind_step (call (CloneRepository (remote env repoName) repoName)
                   (cloneRepository env (remote env repoName) repoName)) (\<lambda>_.
      bind_step (applyRecommendationsFn env applyFn repoName recommendations)
        (\<lambda>recommendationsToClaim.
      bind_step
        (if recommendationsToClaim \<noteq> [] then
           bind_step (call (CommitChanges (commitMessage env type) repoName)
                        (commitChanges env (commitMessage env type) repoName)) (\<lambda>c.
           bind_step (call (CreatePullRequest (remote env repoName) (branch c)
                              (commitMessage env type))
                        (createPullRequest env (remote env repoName) (branch c)
                           (commitMessage env type))) (\<lambda>_.
           bind_step (call (CreateCommit repoName (commit c) recommendationsToClaim)
                        (createCommit env repoName (commit c) recommendationsToClaim)) (\<lambda>_.
           call (SetRecommendationStatus recommendationsToClaim ''markClaimed'')
             (setRecommendationStatus env recommendationsToClaim ''markClaimed''))))
         else ([], Inr ())) (\<lambda>_.
      bind_step (call (ResSendStatus 201) (Inr ())) (\<lambda>_.
      call (ResEnd None) (Inr ()))))))))"

text \<open>The handler: the \<open>try\<close> block and its \<open>catch\<close>, lines 87 to 90.\<close>

definition applyRecommendations :: "'r collaborators \<Rightarrow> apply_request \<Rightarrow> 'r event list" where
  "applyRecommendations env req =
     (case apply_try env req of
        (t, Inr _) \<Rightarrow> t
      | (t, Inl e) \<Rightarrow> t @ [ResSendStatus 500, ResEnd (Some (toString e))])"

subsection \<open>ci\<close>

text \<open>
  The body of the \<open>try\<close> block of \<open>ci\<close>, lines 106 to 151. The test
  \<open>payload.status == 'SUCCESS' && payload.substitutions\<close> reads the second field only when
  the comparison holds, and holds when that field is truthy; the fields inside it are
  then read without a test (line 107 and line 108 read \<open>payload.substitutions\<close> again,
  with the same result). The look-ups are all started by \<open>map\<close> and then awaited
  together; \<open>reduce\<close> appends the results from left to right.
\<close>

definition ci_try :: "recommendation collaborators \<Rightarrow> json \<Rightarrow> (recommendation, unit) step" where
  "ci_try env payload =
     bind_step (evaluate (read_property (Some payload) ''status'')) (\<lambda>status.
     bind_step (evaluate (loose_eq_SUCCESS status)) (\<lambda>is_success.
     bind_step (if is_success then evaluate (read_property (Some payload) ''substitutions'')
                else evaluate (Inr None)) (\<lambda>substitutions.
     if is_success \<and> truthy substitutions then
       bind_step (evaluate (read_property substitutions ''COMMIT_SHA'')) (\<lambda>commitID.
       bind_step (evaluate (read_property substitutions ''REPO_NAME'')) (\<lambda>repoName.
       bind_step (evaluate (template_value repoName)) (\<lambda>repoName_text.
       let fullRepoName = template (BASE_REPO env) @ ''/'' @ repoName_text
       in
       bind_step (call (GetParentCommits fullRepoName commitID)
                    (getParentCommits env fullRepoName commitID)) (\<lambda>parentCommits.
       bind_step (promise_all
                    (map (\<lambda>c. call (GetCommit repoName c) (getCommit env repoName c))
                       parentCommits)) (\<lambda>dbLookUpPromisesResult.
       let recommendationIDs =
             foldl (\<lambda>acc result. acc @ result) [] dbLookUpPromisesResult
       in
       bind_step (call (GetRecommendations recommendationIDs)
                    (getRecommendations env recommendationIDs)) (\<lambda>recommendationsResult.
       let recommendations =
             map (\<lambda>reco. \<lparr>rec_id = name reco, rec_etag = etag reco\<rparr>)
               recommendationsResult
       in
       bind_step (call (SetRecommendationStatus recommendations ''markSucceeded'')
                    (setRecommendationStatus env recommendations ''markSucceeded'')) (\<lambda>_.
       call (ResSendStatus 201) (Inr ()))))))))
     else call (ResSendStatus 200) (Inr ()))))"

text \<open>
  The handler. The payload is decoded on lines 102 and 103, before the \<open>try\<close> block
  opens: an error thrown there leaves the handler (\<open>Inl\<close>) and no call has been made.
  Once the payload is decoded the handler runs to its end (\<open>Inr\<close>, with the calls it
  made); the \<open>catch\<close> of lines 152 to 155 answers an error of the \<open>try\<close> block.
\<close>

definition ci :: "recommendation collaborators \<Rightarrow> string \<Rightarrow> error + recommendation event list" where
  "ci env data =
     (case JSON_parse_base64 env data of
        Inl e \<Rightarrow> Inl e
      | Inr payload \<Rightarrow>
          Inr (case ci_try env payload of
                 (t, Inr _) \<Rightarrow> t
               | (t, Inl e) \<Rightarrow> t @ [ResStatus 500, ResSend (toString e)]))"

subsection \<open>Reading a trace\<close>

text \<open>The calls that leave the handler for another module, as opposed to calls on \<open>res\<close>.\<close>

fun is_collaborator_call :: "'r event \<Rightarrow> bool" where
  "is_collaborator_call (ResStatus n) = False"
| "is_collaborator_call (ResSend s) = False"
| "is_collaborator_call (ResSendStatus n) = False"
| "is_collaborator_call (ResEnd s) = False"
| "is_collaborator_call ev = True"

definition collaborator_calls :: "'r event list \<Rightarrow> 'r event list" where
  "collaborator_calls t = filter is_collaborator_call t"

text \<open>
  The identifiers handed to \<open>setRecommendationStatus\<close> with the operation
  \<open>markSucceeded\<close>, one entry for each object passed, over the whole trace.
\<close>

fun marked_succeeded :: "recommendation event list \<Rightarrow> string list" where
  "marked_succeeded [] = []"
| "marked_succeeded (SetRecommendationStatus recs op # t) =
     (if op = ''markSucceeded'' then map rec_id recs else []) @ marked_succeeded t"
| "marked_succeeded (ev # t) = marked_succeeded t"

definition ci_marked_succeeded :: "recommendation collaborators \<Rightarrow> string \<Rightarrow> string list" where
  "ci_marked_succeeded env data =
     (case ci env data of Inl e \<Rightarrow> [] | Inr t \<Rightarrow> marked_succeeded t)"

subsection \<open>Sample inputs\<close>

text \<open>
  Build-event bodies: the base64 text of
  \<open>{"status":"SUCCESS","substitutions":{"COMMIT_SHA":"c","REPO_NAME":"repo"}}\<close>, of the
  same event with status \<open>FAILURE\<close>, of \<open>{"status":"SUCCESS"}\<close>, of
  \<open>{"status":"SUCCESS","substitutions":{}}\<close>, of \<open>null\<close> and of the words \<open>not json\<close>,
  with what decoding makes of each.
\<close>

definition data_success :: string where
  "data_success =
     ''eyJzdGF0dXMiOiJTVUNDRVNTIiwic3Vic3RpdHV0aW9ucyI6eyJDT01NSVRfU0hBIjoiYyIsIlJFUE9fTkFNRSI6InJlcG8ifX0=''"

definition data_failure :: string where
  "data_failure =
     ''eyJzdGF0dXMiOiJGQUlMVVJFIiwic3Vic3RpdHV0aW9ucyI6eyJDT01NSVRfU0hBIjoiYyIsIlJFUE9fTkFNRSI6InJlcG8ifX0=''"

definition data_no_substitutions :: string where
  "data_no_substitutions = ''eyJzdGF0dXMiOiJTVUNDRVNTIn0=''"

definition data_empty_substitutions :: string where
  "data_empty_substitutions = ''eyJzdGF0dXMiOiJTVUNDRVNTIiwic3Vic3RpdHV0aW9ucyI6e319''"

definition data_null :: string where
  "data_null = ''bnVsbA==''"

definition data_not_json :: string where
  "data_not_json = ''bm90IGpzb24=''"

definition payload_success :: json where
  "payload_success =
     JObject [(''status'', JString ''SUCCESS''),
              (''substitutions'',
               JObject [(''COMMIT_SHA'', JString ''c''), (''REPO_NAME'', JString ''repo'')])]"

definition payload_failure :: json where
  "payload_failure =
     JObject [(''status'', JString ''FAILURE''),
              (''substitutions'',
               JObject [(''COMMIT_SHA'', JString ''c''), (''REPO_NAME'', JString ''repo'')])]"

definition payload_no_substitutions :: json where
  "payload_no_substitutions = JObject [(''status'', JString ''SUCCESS'')]"

definition payload_empty_substitutions :: json where
  "payload_empty_substitutions =
     JObject [(''status'', JString ''SUCCESS''), (''substitutions'', JObject [])]"

definition sample_parse :: "string \<Rightarrow> error + json" where
  "sample_parse data =
     (if data = data_success then Inr payload_success
      else if data = data_failure then Inr payload_failure
      else if data = data_no_substitutions then Inr payload_no_substitutions
      else if data = data_empty_substitutions then Inr payload_empty_substitutions
      else if data = data_null then Inr JNull
      else Inl (SyntaxError ''Unexpected token o in JSON at position 1''))"

text \<open>
  Collaborators that all succeed. Two recommendations are pending and the applier stages
  both. The reported commit \<open>c\<close> has the ancestors \<open>c1\<close> and \<open>c2\<close>, whose records
  share the identifier \<open>r2\<close>; the recommender returns one record for each identifier it
  is asked for.
\<close>

definition sample_recs :: "recommendation list" where
  "sample_recs = [\<lparr>rec_id = ''r1'', rec_etag = ''e1''\<rparr>, \<lparr>rec_id = ''r2'', rec_etag = ''e2''\<rparr>]"

definition sample_env :: "recommendation collaborators" where
  "sample_env =
     \<lparr>listVMResizeRecommendations = (\<lambda>projectIDs. Inr sample_recs),
      listIAMRecommendations = (\<lambda>projectIDs. Inr sample_recs),
      getRecommendations = (\<lambda>ids. Inr (map (\<lambda>i. \<lparr>name = i, etag = ''etag-'' @ i\<rparr>) ids)),
      setRecommendationStatus = (\<lambda>recs op. Inr ()),
      applyVMResizeRecommendations = (\<lambda>repoName recs. Inr recs),
      applyIAMRecommendations = (\<lambda>repoName recs. Inr recs),
      cloneRepository = (\<lambda>url repoName. Inr ()),
      commitChanges = (\<lambda>message repoName. Inr \<lparr>commit = ''abc123'', branch = ''reco''\<rparr>),
      createPullRequest = (\<lambda>url br title. Inr ()),
      getParentCommits = (\<lambda>fullRepoName commitID. Inr [''c1'', ''c2'']),
      createCommit = (\<lambda>repoName commitID recs. Inr ()),
      getCommit = (\<lambda>repoName c.
         Inr (if c = ''c1'' then [''r1'', ''r2'']
              else if c = ''c2'' then [''r2'', ''r3''] else [])),
      BASE_REPO = Some ''github.com:acme'',
      toLocaleString_now = ''11/3/2026, 9:00:00 AM'',
      JSON_parse_base64 = sample_parse\<rparr>"

definition sample_request :: "string \<Rightarrow> apply_request" where
  "sample_request type = \<lparr>repo = ''infra'', projects = [''p1''], rtype = type\<rparr>"

section \<open>Properties of the handlers\<close>

subsection \<open>Auxiliary facts\<close>

lemma foldl_append_concat_acc:
  "foldl (\<lambda>acc result. acc @ result) acc xs = acc @ concat xs"
  by (induction xs arbitrary: acc) simp_all

lemma promise_all_calls:
  "map f cs = map Inr xs \<Longrightarrow>
   promise_all (map (\<lambda>c. call (ev c) (f c)) cs) = (map ev cs, Inr xs)"
proof (induction cs arbitrary: xs)
  case Nil
  then show ?case by simp
next
  case (Cons c cs)
  then obtain y ys where xs: "xs = y # ys" and fc: "f c = Inr y"
    and rest: "map f cs = map Inr ys"
    by (cases xs) auto
  from Cons.IH [OF rest] show ?case
    by (simp add: xs fc call_def)
qed

text \<open>A truthy value is neither \<open>undefined\<close> nor \<open>null\<close>: reading a property of it does not throw.\<close>

lemma read_property_truthy:
  "truthy (Some v) \<Longrightarrow> read_property (Some v) k = Inr (property v k)"
  by (cases v) (simp_all add: read_property_def)

lemma read_property_not_null:
  "v \<noteq> JNull \<Longrightarrow> read_property (Some v) k = Inr (property v k)"
  by (cases v) (simp_all add: read_property_def)

text \<open>
  The run of \<open>ci\<close> on a successful build whose look-ups all succeed: one call for the
  ancestors, one look-up for each ancestor, one token request for the appended
  identifier lists, one status change for the records that came back.
\<close>

lemma ci_try_actionable:
  assumes "p \<noteq> JNull"
    and "loose_eq_SUCCESS (property p ''status'') = Inr True"
    and "property p ''substitutions'' = Some subs"
    and "truthy (Some subs)"
    and "template_value (property subs ''REPO_NAME'') = Inr repoText"
    and "getParentCommits env (template (BASE_REPO env) @ ''/'' @ repoText)
           (property subs ''COMMIT_SHA'') = Inr parents"
    and "map (getCommit env (property subs ''REPO_NAME'')) parents = map Inr idss"
    and "getRecommendations env (concat idss) = Inr rs"
    and "setRecommendationStatus env
           (map (\<lambda>reco. \<lparr>rec_id = name reco, rec_etag = etag reco\<rparr>) rs) ''markSucceeded''
         = Inr ()"
  shows "ci_try env p =
     (GetParentCommits (template (BASE_REPO env) @ ''/'' @ repoText)
        (property subs ''COMMIT_SHA'')
      # map (GetCommit (property subs ''REPO_NAME'')) parents
      @ [GetRecommendations (concat idss),
         SetRecommendationStatus
           (map (\<lambda>reco. \<lparr>rec_id = name reco, rec_etag = etag reco\<rparr>) rs) ''markSucceeded'',
         ResSendStatus 201],
      Inr ())"
  using assms(2,3,5,6,8,9)
    promise_all_calls [OF assms(7),
      of "GetCommit (property subs ''REPO_NAME'') :: string \<Rightarrow> recommendation event"]
  by (simp add: ci_try_def Let_def bind_step_def evaluate_def foldl_append_concat_acc
       read_property_not_null [OF assms(1)] read_property_truthy [OF assms(4)] assms(4)
       call_def [of "GetParentCommits _ _"] call_def [of "GetRecommendations _"]
       call_def [of "SetRecommendationStatus _ _"] call_def [of "ResSendStatus _"])

text \<open>
  An ASCII category whose upper-case form is neither \<open>VM\<close> nor \<open>IAM\<close>: the default branch
  answers, the call of the unset variable throws, and the \<open>catch\<close> answers again. No
  other module is called.
\<close>

lemma unsupported_trace:
  assumes "ascii_text (rtype req)"
    and "toUpperCase (rtype req) \<noteq> ''VM''" and "toUpperCase (rtype req) \<noteq> ''IAM''"
  shows "applyRecommendations env req =
     [ResStatus 500, ResSend ''Unknown operation'', ResSendStatus 500,
      ResEnd (Some ''TypeError: listRecommendationsFn is not a function'')]"
  using assms
  by (simp add: applyRecommendations_def apply_try_def switch_type_def bind_step_def
        call_def throw_def)

lemma unsupported_no_collaborator:
  assumes "ascii_text (rtype req)"
    and "toUpperCase (rtype req) \<noteq> ''VM''" and "toUpperCase (rtype req) \<noteq> ''IAM''"
  shows "collaborator_calls (applyRecommendations env req) = []"
  by (simp add: unsupported_trace [OF assms] collaborator_calls_def)

text \<open>
  An error thrown inside a \<open>try\<close> block ends the block there, and the \<open>catch\<close> issues the
  answer with status 500 and the text of the error after the calls made so far.
\<close>

lemma apply_failure_in_try:
  "apply_try env req = (t, Inl e) \<Longrightarrow>
   applyRecommendations env req = t @ [ResSendStatus 500, ResEnd (Some (toString e))]"
  by (simp add: applyRecommendations_def)

lemma ci_failure_in_try:
  "JSON_parse_base64 env data = Inr p \<Longrightarrow> ci_try env p = (t, Inl e) \<Longrightarrow>
   ci env data = Inr (t @ [ResStatus 500, ResSend (toString e)])"
  by (simp add: ci_def)

text \<open>
  A decoded \<open>null\<close>: reading its status throws inside the \<open>try\<close> block, and the \<open>catch\<close>
  answers with status 500.
\<close>

lemma ci_null_payload:
  assumes "JSON_parse_base64 env data = Inr JNull"
  shows "ci env data =
           Inr [ResStatus 500,
                ResSend ''TypeError: Cannot read properties of null (reading 'status')'']"
  using assms
  by (simp add: ci_def ci_try_def bind_step_def evaluate_def read_property_def)

text \<open>A status that is not the string but converts to it counts as success.\<close>

lemma loose_eq_SUCCESS_array:
  "loose_eq_SUCCESS (Some (JArray [JString ''SUCCESS''])) = Inr True"
  by simp

subsection \<open>The claims\<close>

text \<open>
  C1. For every category outside the supported set the Apply Workflow should end with
  the unsupported-category answer before any collaborator is called, with no partial
  work. The handler does not end there. For the category \<open>foo\<close> the default branch of
  the switch sends status 500 with the text \<open>Unknown operation\<close> and has no \<open>return\<close>;
  control falls through to the listing call, whose variable is \<open>undefined\<close>; the
  TypeError is caught and a second answer, status 500 with the text of the TypeError, is
  issued. No collaborator is called on the way.
\<close>

theorem C1_unsupported_falls_through:
  "applyRecommendations env \<lparr>repo = r, projects = ps, rtype = ''foo''\<rparr> =
     [ResStatus 500, ResSend ''Unknown operation'', ResSendStatus 500,
      ResEnd (Some ''TypeError: listRecommendationsFn is not a function'')]"
  by (simp add: applyRecommendations_def apply_try_def switch_type_def bind_step_def
        call_def throw_def toUpperCase_def toUpperCase_char_def)

text \<open>
  C2, as stated: with ancestors \<open>c1\<close> and \<open>c2\<close> recorded as \<open>{r1, r2}\<close> and \<open>{r2, r3}\<close>,
  each identifier reaches the status-change call exactly once. In the sample
  environment the call receives \<open>r2\<close> twice.
\<close>

theorem C2_duplicate_counterexample:
  "ci sample_env data_success =
     Inr [GetParentCommits ''github.com:acme/repo'' (Some (JString ''c'')),
          GetCommit (Some (JString ''repo'')) ''c1'',
          GetCommit (Some (JString ''repo'')) ''c2'',
          GetRecommendations [''r1'', ''r2'', ''r2'', ''r3''],
          SetRecommendationStatus
            [\<lparr>rec_id = ''r1'', rec_etag = ''etag-r1''\<rparr>,
             \<lparr>rec_id = ''r2'', rec_etag = ''etag-r2''\<rparr>,
             \<lparr>rec_id = ''r2'', rec_etag = ''etag-r2''\<rparr>,
             \<lparr>rec_id = ''r3'', rec_etag = ''etag-r3''\<rparr>] ''markSucceeded'',
          ResSendStatus 201]
   \<and> ci_marked_succeeded sample_env data_success = [''r1'', ''r2'', ''r2'', ''r3'']
   \<and> \<not> distinct (ci_marked_succeeded sample_env data_success)"
  by (simp add: ci_marked_succeeded_def ci_def ci_try_def bind_step_def call_def Let_def
        evaluate_def read_property_def payload_success_def
        sample_env_def sample_parse_def data_success_def)

text \<open>
  C2, amended. For a successful build event whose ancestor look-ups all succeed, the
  handler asks for the tokens of the identifier lists appended in the order of the
  ancestors, duplicates kept, and makes one status-change call with one entry for each
  record the token request returned, in that order. The identifiers requested are, as a
  set, the union of the looked-up lists.
\<close>

theorem C2_flattened_union:
  assumes "JSON_parse_base64 env data = Inr p"
    and "p \<noteq> JNull"
    and "loose_eq_SUCCESS (property p ''status'') = Inr True"
    and "property p ''substitutions'' = Some subs"
    and "truthy (Some subs)"
    and "template_value (property subs ''REPO_NAME'') = Inr repoText"
    and "getParentCommits env (template (BASE_REPO env) @ ''/'' @ repoText)
           (property subs ''COMMIT_SHA'') = Inr parents"
    and "map (getCommit env (property subs ''REPO_NAME'')) parents = map Inr idss"
    and "getRecommendations env (concat idss) = Inr rs"
    and "setRecommendationStatus env
           (map (\<lambda>reco. \<lparr>rec_id = name reco, rec_etag = etag reco\<rparr>) rs) ''markSucceeded''
         = Inr ()"
  shows "ci env data =
     Inr (GetParentCommits (template (BASE_REPO env) @ ''/'' @ repoText)
            (property subs ''COMMIT_SHA'')
          # map (GetCommit (property subs ''REPO_NAME'')) parents
          @ [GetRecommendations (concat idss),
             SetRecommendationStatus
               (map (\<lambda>reco. \<lparr>rec_id = name reco, rec_etag = etag reco\<rparr>) rs)
               ''markSucceeded'',
             ResSendStatus 201])
     \<and> set (concat idss) = \<Union> (set ` set idss)"
  using ci_try_actionable [OF assms(2-10)] assms(1)
  by (simp add: ci_def)

theorem C2_flattened_union_witness:
  "ci sample_env data_success =
     Inr (GetParentCommits ''github.com:acme/repo'' (Some (JString ''c''))
          # map (GetCommit (Some (JString ''repo''))) [''c1'', ''c2'']
          @ [GetRecommendations (concat [[''r1'', ''r2''], [''r2'', ''r3'']]),
             SetRecommendationStatus
               (map (\<lambda>reco. \<lparr>rec_id = name reco, rec_etag = etag reco\<rparr>)
                  (map (\<lambda>i. \<lparr>name = i, etag = ''etag-'' @ i\<rparr>)
                     [''r1'', ''r2'', ''r2'', ''r3'']))
               ''markSucceeded'',
             ResSendStatus 201])
   \<and> set (concat [[''r1'', ''r2''], [''r2'', ''r3'']]) =
       \<Union> (set ` set [[''r1'', ''r2''], [''r2'', ''r3'']])"
  using C2_flattened_union [of sample_env data_success payload_success
      "JObject [(''COMMIT_SHA'', JString ''c''), (''REPO_NAME'', JString ''repo'')]"
      "''repo''" "[''c1'', ''c2'']" "[[''r1'', ''r2''], [''r2'', ''r3'']]"
      "map (\<lambda>i. \<lparr>name = i, etag = ''etag-'' @ i\<rparr>) [''r1'', ''r2'', ''r2'', ''r3'']"]
  by (simp add: sample_env_def sample_parse_def payload_success_def)

text \<open>
  C3. Whenever the handler issues the claim call, a \<open>createCommit\<close> call for the same
  repository, for the commit that \<open>commitChanges\<close> returned and for the same
  recommendations stands earlier in the trace, and that call had returned.
\<close>

theorem C3_record_before_claim:
  assumes "applyRecommendations env req = pre @ SetRecommendationStatus recs op # post"
  shows "\<exists>c. commitChanges env (commitMessage env (toUpperCase (rtype req))) (repo req) = Inr c
            \<and> CreateCommit (repo req) (commit c) recs \<in> set pre
            \<and> createCommit env (repo req) (commit c) recs = Inr ()
            \<and> recs \<noteq> [] \<and> op = ''markClaimed''"
  using assms
  by (auto simp add: applyRecommendations_def apply_try_def switch_type_def bind_step_def
        call_def throw_def Let_def Cons_eq_append_conv
      split: if_splits sum.splits prod.splits)

theorem C3_record_before_claim_witness:
  "applyRecommendations sample_env (sample_request ''VM'') =
     [ListVMResizeRecommendations [''p1''],
      CloneRepository ''git@github.com:acme/infra.git'' ''infra'',
      ApplyVMResizeRecommendations ''infra'' sample_recs,
      CommitChanges ''Recommended VM Rightsizing as on 11/3/2026, 9:00:00 AM'' ''infra'',
      CreatePullRequest ''git@github.com:acme/infra.git'' ''reco''
        ''Recommended VM Rightsizing as on 11/3/2026, 9:00:00 AM'',
      CreateCommit ''infra'' ''abc123'' sample_recs]
     @ SetRecommendationStatus sample_recs ''markClaimed'' # [ResSendStatus 201, ResEnd None]
   \<and> commitChanges sample_env
         (commitMessage sample_env (toUpperCase (rtype (sample_request ''VM''))))
         (repo (sample_request ''VM'')) = Inr \<lparr>commit = ''abc123'', branch = ''reco''\<rparr>
   \<and> CreateCommit ''infra'' ''abc123'' sample_recs
         \<in> set [ListVMResizeRecommendations [''p1''],
                 CloneRepository ''git@github.com:acme/infra.git'' ''infra'',
                 ApplyVMResizeRecommendations ''infra'' sample_recs,
                 CommitChanges ''Recommended VM Rightsizing as on 11/3/2026, 9:00:00 AM''
                   ''infra'',
                 CreatePullRequest ''git@github.com:acme/infra.git'' ''reco''
                   ''Recommended VM Rightsizing as on 11/3/2026, 9:00:00 AM'',
                 CreateCommit ''infra'' ''abc123'' sample_recs]
   \<and> createCommit sample_env ''infra'' ''abc123'' sample_recs = Inr ()
   \<and> sample_recs \<noteq> []"
proof -
  have run: "applyRecommendations sample_env (sample_request ''VM'') =
     [ListVMResizeRecommendations [''p1''],
      CloneRepository ''git@github.com:acme/infra.git'' ''infra'',
      ApplyVMResizeRecommendations ''infra'' sample_recs,
      CommitChanges ''Recommended VM Rightsizing as on 11/3/2026, 9:00:00 AM'' ''infra'',
      CreatePullRequest ''git@github.com:acme/infra.git'' ''reco''
        ''Recommended VM Rightsizing as on 11/3/2026, 9:00:00 AM'',
      CreateCommit ''infra'' ''abc123'' sample_recs]
     @ SetRecommendationStatus sample_recs ''markClaimed'' # [ResSendStatus 201, ResEnd None]"
    by (simp add: applyRecommendations_def apply_try_def switch_type_def bind_step_def
          call_def Let_def sample_env_def sample_request_def sample_recs_def
          toUpperCase_def toUpperCase_char_def remote_def commitMessage_def)
  from C3_record_before_claim [OF run]
  obtain c where c: "commitChanges sample_env
         (commitMessage sample_env (toUpperCase (rtype (sample_request ''VM''))))
         (repo (sample_request ''VM'')) = Inr c"
    and rec: "createCommit sample_env (repo (sample_request ''VM'')) (commit c) sample_recs
              = Inr ()"
    and ne: "sample_recs \<noteq> []"
    by blast
  have cv: "c = \<lparr>commit = ''abc123'', branch = ''reco''\<rparr>"
    using c by (simp add: sample_env_def)
  from run c rec ne show ?thesis
    by (simp add: cv sample_request_def)
qed

text \<open>
  C4. When the listing returns an empty array the handler makes no further call to any
  module: the trace is the listing call followed by \<open>res.end('Nothing to apply')\<close>, an
  answer with no error status.
\<close>

theorem C4_empty_listing_is_noop:
  "(toUpperCase (rtype req) = ''VM'' \<and> listVMResizeRecommendations env (projects req) = Inr []
      \<longrightarrow> applyRecommendations env req =
            [ListVMResizeRecommendations (projects req), ResEnd (Some ''Nothing to apply'')])
   \<and> (toUpperCase (rtype req) = ''IAM'' \<and> listIAMRecommendations env (projects req) = Inr []
      \<longrightarrow> applyRecommendations env req =
            [ListIAMRecommendations (projects req), ResEnd (Some ''Nothing to apply'')])"
  by (simp add: applyRecommendations_def apply_try_def switch_type_def bind_step_def call_def)

theorem C4_empty_listing_is_noop_witness:
  "toUpperCase (rtype (sample_request ''vm'')) = ''VM''
   \<and> listVMResizeRecommendations
        (sample_env\<lparr>listVMResizeRecommendations := \<lambda>projectIDs. Inr []\<rparr>)
        (projects (sample_request ''vm'')) = Inr []
   \<and> applyRecommendations (sample_env\<lparr>listVMResizeRecommendations := \<lambda>projectIDs. Inr []\<rparr>)
        (sample_request ''vm'') =
       [ListVMResizeRecommendations [''p1''], ResEnd (Some ''Nothing to apply'')]
   \<and> toUpperCase (rtype (sample_request ''iam'')) = ''IAM''
   \<and> listIAMRecommendations
        (sample_env\<lparr>listIAMRecommendations := \<lambda>projectIDs. Inr []\<rparr>)
        (projects (sample_request ''iam'')) = Inr []
   \<and> applyRecommendations (sample_env\<lparr>listIAMRecommendations := \<lambda>projectIDs. Inr []\<rparr>)
        (sample_request ''iam'') =
       [ListIAMRecommendations [''p1''], ResEnd (Some ''Nothing to apply'')]"
  using C4_empty_listing_is_noop
          [of "sample_request ''vm''"
              "sample_env\<lparr>listVMResizeRecommendations := \<lambda>projectIDs. Inr []\<rparr>"]
        C4_empty_listing_is_noop
          [of "sample_request ''iam''"
              "sample_env\<lparr>listIAMRecommendations := \<lambda>projectIDs. Inr []\<rparr>"]
  by (simp add: sample_request_def toUpperCase_def toUpperCase_char_def)

text \<open>
  C5. When the listing is not empty, the clone succeeds and the applier returns an empty
  array, the handler makes no commit, pull-request, database or status call: after the
  applier the trace holds only \<open>res.sendStatus(201).end()\<close>.
\<close>

theorem C5_empty_claim_is_noop:
  "(toUpperCase (rtype req) = ''VM''
      \<and> listVMResizeRecommendations env (projects req) = Inr recs \<and> recs \<noteq> []
      \<and> cloneRepository env (remote env (repo req)) (repo req) = Inr ()
      \<and> applyVMResizeRecommendations env (repo req) recs = Inr []
      \<longrightarrow> applyRecommendations env req =
            [ListVMResizeRecommendations (projects req),
             CloneRepository (remote env (repo req)) (repo req),
             ApplyVMResizeRecommendations (repo req) recs,
             ResSendStatus 201, ResEnd None])
   \<and> (toUpperCase (rtype req) = ''IAM''
      \<and> listIAMRecommendations env (projects req) = Inr recs \<and> recs \<noteq> []
      \<and> cloneRepository env (remote env (repo req)) (repo req) = Inr ()
      \<and> applyIAMRecommendations env (repo req) recs = Inr []
      \<longrightarrow> applyRecommendations env req =
            [ListIAMRecommendations (projects req),
             CloneRepository (remote env (repo req)) (repo req),
             ApplyIAMRecommendations (repo req) recs,
             ResSendStatus 201, ResEnd None])"
  by (simp add: applyRecommendations_def apply_try_def switch_type_def bind_step_def call_def
        Let_def)

theorem C5_empty_claim_is_noop_witness:
  "toUpperCase (rtype (sample_request ''vm'')) = ''VM''
   \<and> listVMResizeRecommendations
        (sample_env\<lparr>applyVMResizeRecommendations := \<lambda>repoName recs. Inr []\<rparr>)
        (projects (sample_request ''vm'')) = Inr sample_recs
   \<and> sample_recs \<noteq> []
   \<and> applyVMResizeRecommendations
        (sample_env\<lparr>applyVMResizeRecommendations := \<lambda>repoName recs. Inr []\<rparr>)
        (repo (sample_request ''vm'')) sample_recs = Inr []
   \<and> applyRecommendations
        (sample_env\<lparr>applyVMResizeRecommendations := \<lambda>repoName recs. Inr []\<rparr>)
        (sample_request ''vm'') =
       [ListVMResizeRecommendations [''p1''],
        CloneRepository ''git@github.com:acme/infra.git'' ''infra'',
        ApplyVMResizeRecommendations ''infra'' sample_recs,
        ResSendStatus 201, ResEnd None]
   \<and> toUpperCase (rtype (sample_request ''iam'')) = ''IAM''
   \<and> applyRecommendations
        (sample_env\<lparr>applyIAMRecommendations := \<lambda>repoName recs. Inr []\<rparr>)
        (sample_request ''iam'') =
       [ListIAMRecommendations [''p1''],
        CloneRepository ''git@github.com:acme/infra.git'' ''infra'',
        ApplyIAMRecommendations ''infra'' sample_recs,
        ResSendStatus 201, ResEnd None]"
  using C5_empty_claim_is_noop
          [of "sample_request ''vm''"
              "sample_env\<lparr>applyVMResizeRecommendations := \<lambda>repoName recs. Inr []\<rparr>"
              sample_recs]
        C5_empty_claim_is_noop
          [of "sample_request ''iam''"
              "sample_env\<lparr>applyIAMRecommendations := \<lambda>repoName recs. Inr []\<rparr>"
              sample_recs]
  by (simp add: sample_request_def sample_env_def sample_recs_def remote_def
        toUpperCase_def toUpperCase_char_def)




text \<open>
  C7. Every failure inside either workflow, a failure to decode the build event
  included, should reach the caller as an error status with the text of the failure.
  In \<open>ci\<close> the payload is decoded before the \<open>try\<close> block opens, so a decoding error
  is not caught: it leaves the handler, and the handler has made no call on \<open>res\<close>.
\<close>

theorem C7_decode_error_escapes:
  assumes "JSON_parse_base64 env data = Inl e"
  shows "ci env data = Inl e"
  using assms by (simp add: ci_def)

theorem C7_decode_error_escapes_witness:
  "JSON_parse_base64 sample_env data_not_json =
     Inl (SyntaxError ''Unexpected token o in JSON at position 1'')
   \<and> ci sample_env data_not_json =
     Inl (SyntaxError ''Unexpected token o in JSON at position 1'')"
proof -
  have d: "JSON_parse_base64 sample_env data_not_json =
     Inl (SyntaxError ''Unexpected token o in JSON at position 1'')"
    by (simp add: sample_env_def sample_parse_def data_not_json_def data_success_def
          data_failure_def data_no_substitutions_def data_empty_substitutions_def
          data_null_def)
  from C7_decode_error_escapes [OF d] d show ?thesis by simp
qed

text \<open>
  C8. A run that reaches the commit step has category \<open>VM\<close> or \<open>IAM\<close>. The commit
  message contains \<open>VM Rightsizing\<close> in the first case and \<open>IAM Updates\<close> in the second,
  and in both it contains the text of the current time.
\<close>

theorem C8_commit_message:
  assumes "CommitChanges msg r \<in> set (applyRecommendations env req)"
  shows "(toUpperCase (rtype req) = ''VM'' \<and> sublist ''VM Rightsizing'' msg
          \<or> toUpperCase (rtype req) = ''IAM'' \<and> sublist ''IAM Updates'' msg)
         \<and> sublist (toLocaleString_now env) msg"
proof -
  have vm: "sublist ''VM Rightsizing'' (''Recommended '' @ ''VM Rightsizing'' @ '' as on '' @ now)"
    for now :: string
    by (rule sublist_appendI)
  have iam: "sublist ''IAM Updates'' (''Recommended '' @ ''IAM Updates'' @ '' as on '' @ now)"
    for now :: string
    by (rule sublist_appendI)
  have msg: "msg = commitMessage env (toUpperCase (rtype req))"
    and ty: "toUpperCase (rtype req) = ''VM'' \<or> toUpperCase (rtype req) = ''IAM''"
    using assms
    by (auto simp add: applyRecommendations_def apply_try_def switch_type_def bind_step_def
          call_def throw_def Let_def
        split: if_splits sum.splits prod.splits)
  have now: "sublist (toLocaleString_now env) msg"
    unfolding msg commitMessage_def by (simp del: append.simps)
  from ty show ?thesis
  proof
    assume v: "toUpperCase (rtype req) = ''VM''"
    with vm [of "toLocaleString_now env"] now show ?thesis
      by (simp add: msg commitMessage_def)
  next
    assume i: "toUpperCase (rtype req) = ''IAM''"
    with iam [of "toLocaleString_now env"] now show ?thesis
      by (simp add: msg commitMessage_def)
  qed
qed

theorem C8_commit_message_witness:
  "CommitChanges ''Recommended VM Rightsizing as on 11/3/2026, 9:00:00 AM'' ''infra''
     \<in> set (applyRecommendations sample_env (sample_request ''vm''))
   \<and> sublist ''VM Rightsizing'' ''Recommended VM Rightsizing as on 11/3/2026, 9:00:00 AM''
   \<and> sublist ''11/3/2026, 9:00:00 AM''
         ''Recommended VM Rightsizing as on 11/3/2026, 9:00:00 AM''
   \<and> CommitChanges ''Recommended IAM Updates as on 11/3/2026, 9:00:00 AM'' ''infra''
     \<in> set (applyRecommendations sample_env (sample_request ''iam''))
   \<and> sublist ''IAM Updates'' ''Recommended IAM Updates as on 11/3/2026, 9:00:00 AM''
   \<and> sublist ''11/3/2026, 9:00:00 AM''
         ''Recommended IAM Updates as on 11/3/2026, 9:00:00 AM''"
proof -
  have v: "CommitChanges ''Recommended VM Rightsizing as on 11/3/2026, 9:00:00 AM'' ''infra''
     \<in> set (applyRecommendations sample_env (sample_request ''vm''))"
    by (simp add: applyRecommendations_def apply_try_def switch_type_def bind_step_def
          call_def Let_def sample_env_def sample_request_def sample_recs_def
          toUpperCase_def toUpperCase_char_def remote_def commitMessage_def)
  have i: "CommitChanges ''Recommended IAM Updates as on 11/3/2026, 9:00:00 AM'' ''infra''
     \<in> set (applyRecommendations sample_env (sample_request ''iam''))"
    by (simp add: applyRecommendations_def apply_try_def switch_type_def bind_step_def
          call_def Let_def sample_env_def sample_request_def sample_recs_def
          toUpperCase_def toUpperCase_char_def remote_def commitMessage_def)
  have tv: "toUpperCase (rtype (sample_request ''vm'')) = ''VM''"
    and ti: "toUpperCase (rtype (sample_request ''iam'')) = ''IAM''"
    and now: "toLocaleString_now sample_env = ''11/3/2026, 9:00:00 AM''"
    by (simp_all add: sample_request_def sample_env_def toUpperCase_def toUpperCase_char_def)
  from C8_commit_message [OF v] C8_commit_message [OF i] v i show ?thesis
    unfolding tv ti now by simp
qed

text \<open>
  C9. Every spelling of \<open>VM\<close> in lower, upper or mixed case is upper-cased to \<open>VM\<close>,
  selects the two VM functions and makes the handler run as it does for \<open>VM\<close>,
  starting with the VM listing; every such spelling of \<open>IAM\<close> likewise selects the two
  IAM functions and gives the run for \<open>IAM\<close>, starting with the IAM listing.
\<close>

theorem C9_case_insensitive:
  "(s \<in> {''vm'', ''vM'', ''Vm'', ''VM''} \<longrightarrow>
      toUpperCase s = ''VM''
      \<and> switch_type (toUpperCase s)
          = (([], Inr (Some ListVM, Some ApplyVM)) :: ('r, list_fn option \<times> apply_fn option) step)
      \<and> applyRecommendations (env :: 'r collaborators) (req\<lparr>rtype := s\<rparr>)
          = applyRecommendations env (req\<lparr>rtype := ''VM''\<rparr>)
      \<and> (\<exists>t. applyRecommendations env (req\<lparr>rtype := s\<rparr>)
               = ListVMResizeRecommendations (projects req) # t))
   \<and> (s \<in> {''iam'', ''iaM'', ''iAm'', ''iAM'', ''Iam'', ''IaM'', ''IAm'', ''IAM''} \<longrightarrow>
      toUpperCase s = ''IAM''
      \<and> switch_type (toUpperCase s)
          = (([], Inr (Some ListIAM, Some ApplyIAM)) :: ('r, list_fn option \<times> apply_fn option) step)
      \<and> applyRecommendations env (req\<lparr>rtype := s\<rparr>)
          = applyRecommendations env (req\<lparr>rtype := ''IAM''\<rparr>)
      \<and> (\<exists>t. applyRecommendations env (req\<lparr>rtype := s\<rparr>)
               = ListIAMRecommendations (projects req) # t))"
proof -
  have up_vm: "toUpperCase s = ''VM''" if "s \<in> {''vm'', ''vM'', ''Vm'', ''VM''}"
    using that by (auto simp add: toUpperCase_def toUpperCase_char_def)
  have up_iam: "toUpperCase s = ''IAM''"
    if "s \<in> {''iam'', ''iaM'', ''iAm'', ''iAM'', ''Iam'', ''IaM'', ''IAm'', ''IAM''}"
    using that by (auto simp add: toUpperCase_def toUpperCase_char_def)
  have same: "applyRecommendations env (req\<lparr>rtype := a\<rparr>)
                = applyRecommendations env (req\<lparr>rtype := b\<rparr>)"
    if "toUpperCase a = toUpperCase b" for a b
    using that by (simp add: applyRecommendations_def apply_try_def)
  have VM: "toUpperCase ''VM'' = ''VM''" and IAM: "toUpperCase ''IAM'' = ''IAM''"
    by (simp_all add: toUpperCase_def toUpperCase_char_def)
  have first_vm: "\<exists>t. applyRecommendations env (req\<lparr>rtype := a\<rparr>)
                      = ListVMResizeRecommendations (projects req) # t"
    if "toUpperCase a = ''VM''" for a
    using that
    by (auto simp add: applyRecommendations_def apply_try_def switch_type_def bind_step_def
          call_def Let_def
        split: sum.splits prod.splits)
  have first_iam: "\<exists>t. applyRecommendations env (req\<lparr>rtype := a\<rparr>)
                      = ListIAMRecommendations (projects req) # t"
    if "toUpperCase a = ''IAM''" for a
    using that
    by (auto simp add: applyRecommendations_def apply_try_def switch_type_def bind_step_def
          call_def Let_def
        split: sum.splits prod.splits)
  show ?thesis
  proof (intro conjI impI)
    assume v: "s \<in> {''vm'', ''vM'', ''Vm'', ''VM''}"
    show "toUpperCase s = ''VM''" by (rule up_vm [OF v])
    show "switch_type (toUpperCase s)
          = (([], Inr (Some ListVM, Some ApplyVM)) :: ('r, list_fn option \<times> apply_fn option) step)"
      by (simp add: up_vm [OF v] switch_type_def)
    show "applyRecommendations env (req\<lparr>rtype := s\<rparr>)
          = applyRecommendations env (req\<lparr>rtype := ''VM''\<rparr>)"
      by (rule same) (simp add: up_vm [OF v] VM)
    show "\<exists>t. applyRecommendations env (req\<lparr>rtype := s\<rparr>)
               = ListVMResizeRecommendations (projects req) # t"
      by (rule first_vm [OF up_vm [OF v]])
  next
    assume i: "s \<in> {''iam'', ''iaM'', ''iAm'', ''iAM'', ''Iam'', ''IaM'', ''IAm'', ''IAM''}"
    show "toUpperCase s = ''IAM''" by (rule up_iam [OF i])
    show "switch_type (toUpperCase s)
          = (([], Inr (Some ListIAM, Some ApplyIAM)) :: ('r, list_fn option \<times> apply_fn option) step)"
      by (simp add: up_iam [OF i] switch_type_def)
    show "applyRecommendations env (req\<lparr>rtype := s\<rparr>)
          = applyRecommendations env (req\<lparr>rtype := ''IAM''\<rparr>)"
      by (rule same) (simp add: up_iam [OF i] IAM)
    show "\<exists>t. applyRecommendations env (req\<lparr>rtype := s\<rparr>)
               = ListIAMRecommendations (projects req) # t"
      by (rule first_iam [OF up_iam [OF i]])
  qed
qed

theorem C9_case_insensitive_witness:
  "''vm'' \<in> {''vm'', ''vM'', ''Vm'', ''VM''}
   \<and> toUpperCase ''vm'' = ''VM''
   \<and> switch_type (toUpperCase ''vm'')
       = (([], Inr (Some ListVM, Some ApplyVM))
            :: (recommendation, list_fn option \<times> apply_fn option) step)
   \<and> applyRecommendations sample_env (sample_request ''vm'')
       = applyRecommendations sample_env (sample_request ''VM'')
   \<and> hd (applyRecommendations sample_env (sample_request ''vm''))
       = ListVMResizeRecommendations [''p1'']
   \<and> ''iAm'' \<in> {''iam'', ''iaM'', ''iAm'', ''iAM'', ''Iam'', ''IaM'', ''IAm'', ''IAM''}
   \<and> toUpperCase ''iAm'' = ''IAM''
   \<and> switch_type (toUpperCase ''iAm'')
       = (([], Inr (Some ListIAM, Some ApplyIAM))
            :: (recommendation, list_fn option \<times> apply_fn option) step)
   \<and> applyRecommendations sample_env (sample_request ''iAm'')
       = applyRecommendations sample_env (sample_request ''IAM'')
   \<and> hd (applyRecommendations sample_env (sample_request ''iAm''))
       = ListIAMRecommendations [''p1'']"
proof -
  have v: "''vm'' \<in> {''vm'', ''vM'', ''Vm'', ''VM''}"
    and i: "''iAm'' \<in> {''iam'', ''iaM'', ''iAm'', ''iAM'', ''Iam'', ''IaM'', ''IAm'', ''IAM''}"
    by simp_all
  have rv: "(sample_request ''x'')\<lparr>rtype := t\<rparr> = sample_request t" for t
    by (simp add: sample_request_def)
  have pr: "projects (sample_request ''x'') = [''p1'']"
    by (simp add: sample_request_def)
  from C9_case_insensitive [of "''vm''" sample_env "sample_request ''x''"] v
  have a: "toUpperCase ''vm'' = ''VM''"
    and b: "switch_type (toUpperCase ''vm'')
       = (([], Inr (Some ListVM, Some ApplyVM))
            :: (recommendation, list_fn option \<times> apply_fn option) step)"
    and c: "applyRecommendations sample_env (sample_request ''vm'')
       = applyRecommendations sample_env (sample_request ''VM'')"
    and d: "\<exists>t. applyRecommendations sample_env (sample_request ''vm'')
               = ListVMResizeRecommendations [''p1''] # t"
    unfolding rv pr by blast+
  from C9_case_insensitive [of "''iAm''" sample_env "sample_request ''x''"] i
  have e: "toUpperCase ''iAm'' = ''IAM''"
    and f: "switch_type (toUpperCase ''iAm'')
       = (([], Inr (Some ListIAM, Some ApplyIAM))
            :: (recommendation, list_fn option \<times> apply_fn option) step)"
    and g: "applyRecommendations sample_env (sample_request ''iAm'')
       = applyRecommendations sample_env (sample_request ''IAM'')"
    and h: "\<exists>t. applyRecommendations sample_env (sample_request ''iAm'')
               = ListIAMRecommendations [''p1''] # t"
    unfolding rv pr by blast+
  from d have d': "hd (applyRecommendations sample_env (sample_request ''vm''))
       = ListVMResizeRecommendations [''p1'']" by auto
  from h have h': "hd (applyRecommendations sample_env (sample_request ''iAm''))
       = ListIAMRecommendations [''p1'']" by auto
  from v i a b c d' e f g h' show ?thesis by blast
qed

text \<open>
  C10. A successful build event none of whose ancestors has a record: the look-ups all
  return the empty array, the handler asks for the tokens of no identifier, hands the
  empty array to the status change and answers with status 201, provided the
  collaborators return and the token request for no identifier returns no record.
\<close>

theorem C10_no_records_succeeds:
  assumes "JSON_parse_base64 env data = Inr p"
    and "p \<noteq> JNull"
    and "loose_eq_SUCCESS (property p ''status'') = Inr True"
    and "property p ''substitutions'' = Some subs"
    and "truthy (Some subs)"
    and "template_value (property subs ''REPO_NAME'') = Inr repoText"
    and "getParentCommits env (template (BASE_REPO env) @ ''/'' @ repoText)
           (property subs ''COMMIT_SHA'') = Inr parents"
    and "\<forall>c \<in> set parents. getCommit env (property subs ''REPO_NAME'') c = Inr []"
    and "getRecommendations env [] = Inr []"
    and "setRecommendationStatus env [] ''markSucceeded'' = Inr ()"
  shows "ci env data =
     Inr (GetParentCommits (template (BASE_REPO env) @ ''/'' @ repoText)
            (property subs ''COMMIT_SHA'')
          # map (GetCommit (property subs ''REPO_NAME'')) parents
          @ [GetRecommendations [], SetRecommendationStatus [] ''markSucceeded'',
             ResSendStatus 201])"
proof -
  have lookups: "map (getCommit env (property subs ''REPO_NAME'')) parents =
                 map Inr (replicate (length parents) [])"
    using assms(8) by (simp add: map_replicate_const [symmetric])
  have empty: "concat (replicate (length parents) ([] :: string list)) = []"
    by (induction parents) simp_all
  from ci_try_actionable [OF assms(2-7) lookups, of "[]"] assms(1,9,10) empty
  show ?thesis by (simp add: ci_def)
qed

theorem C10_no_records_succeeds_witness:
  "getCommit (sample_env\<lparr>getCommit := \<lambda>repoName c. Inr []\<rparr>) (Some (JString ''repo'')) ''c1''
     = Inr []
   \<and> getCommit (sample_env\<lparr>getCommit := \<lambda>repoName c. Inr []\<rparr>) (Some (JString ''repo'')) ''c2''
     = Inr []
   \<and> ci (sample_env\<lparr>getCommit := \<lambda>repoName c. Inr []\<rparr>) data_success =
     Inr [GetParentCommits ''github.com:acme/repo'' (Some (JString ''c'')),
          GetCommit (Some (JString ''repo'')) ''c1'',
          GetCommit (Some (JString ''repo'')) ''c2'',
          GetRecommendations [], SetRecommendationStatus [] ''markSucceeded'',
          ResSendStatus 201]"
  using C10_no_records_succeeds
    [of "sample_env\<lparr>getCommit := \<lambda>repoName c. Inr []\<rparr>" data_success payload_success
      "JObject [(''COMMIT_SHA'', JString ''c''), (''REPO_NAME'', JString ''repo'')]"
      "''repo''" "[''c1'', ''c2'']"]
  by (simp add: sample_env_def sample_parse_def payload_success_def)

end
